theory Spec2Isabelle
  imports Complex_Main
begin

section \<open>Number model\<close>

text \<open>
  The simulation engine computes with two kinds of floating-point values: Python
  \<open>float\<close>s (the arguments, the literals and everything derived from them by Python
  arithmetic) and \<open>np.float64\<close> scalars (everything downstream of
  \<open>np.sin(np.radians(impact_angle))\<close>: the kinetic energy, \<open>E\<close>, both radii).

  \<^item> A finite double is modelled by the real number it denotes, and arithmetic on finite
    values is exact: rounding error, underflow, saturation of an out-of-range product or
    quotient to an infinity, and the sign of zero are outside the model. The arguments of
    the function are finite doubles, so they are reals.
  \<^item> A Python \<open>float\<close> is a \<open>real\<close>. The only Python operation of the source that can
    raise on floats is \<open>**\<close>: \<open>ZeroDivisionError\<close> for \<open>0.0 ** negative\<close>,
    \<open>OverflowError\<close> when the result leaves the double range; both are branches of the
    model, the second decided on the exact power.
  \<^item> An \<open>np.float64\<close> is an \<open>npfloat\<close>: a finite value, an infinity or NaN. NumPy scalar
    arithmetic never raises under the default error state (it warns), so the special
    values are produced and propagated as IEEE 754 prescribes.
\<close>

datatype npfloat = Fin real | PInf | NInf | NaN

text \<open>
  Exceptions are instances of Python's \<open>Exception\<close>, the class both handlers of the source
  catch: the three builtin ones the modelled operations raise, and any other, with its
  message, for what the external classifier may raise.
\<close>

datatype exn = ZeroDivisionError | OverflowError | IndexError | Exception string

text \<open>The largest finite double, \<open>(2 - 2\<^sup>-\<^sup>5\<^sup>2) \<sqdot> 2\<^sup>1\<^sup>0\<^sup>2\<^sup>3\<close>.\<close>

definition dbl_max :: real where
  "dbl_max = 2 ^ 1024 - 2 ^ 971"

subsection \<open>Python \<open>float\<close> power\<close>

text \<open>\<open>x ** n\<close> for a non-negative integer literal \<open>n\<close> (\<open>raio_m ** 3\<close>, \<open>h ** 2\<close>).\<close>

definition py_pow_int :: "real \<Rightarrow> nat \<Rightarrow> exn + real" where
  "py_pow_int x n = (if dbl_max < \<bar>x ^ n\<bar> then Inl OverflowError else Inr (x ^ n))"

text \<open>
  \<open>x ** y\<close> for a float exponent (\<open>h ** -0.449\<close>), for a base \<open>x \<ge> 0\<close>. A negative base
  with a fractional exponent yields a complex number in Python; the source applies the
  operator to \<open>h\<close> only, which is \<open>5.0\<close> or \<open>0.0\<close>.
\<close>

definition py_pow :: "real \<Rightarrow> real \<Rightarrow> exn + real" where
  "py_pow x y =
     (if y = 0 then Inr 1
      else if x = 0 then (if y < 0 then Inl ZeroDivisionError else Inr 0)
      else if dbl_max < \<bar>x powr y\<bar> then Inl OverflowError
      else Inr (x powr y))"

subsection \<open>\<open>np.float64\<close> arithmetic\<close>

fun np_neg :: "npfloat \<Rightarrow> npfloat" where
  "np_neg (Fin x) = Fin (- x)"
| "np_neg PInf = NInf"
| "np_neg NInf = PInf"
| "np_neg NaN = NaN"

fun np_add :: "npfloat \<Rightarrow> npfloat \<Rightarrow> npfloat" where
  "np_add NaN b = NaN"
| "np_add a NaN = NaN"
| "np_add (Fin x) (Fin y) = Fin (x + y)"
| "np_add PInf NInf = NaN"
| "np_add NInf PInf = NaN"
| "np_add PInf b = PInf"
| "np_add NInf b = NInf"
| "np_add (Fin x) b = b"

definition np_sub :: "npfloat \<Rightarrow> npfloat \<Rightarrow> npfloat" where
  "np_sub a b = np_add a (np_neg b)"

text \<open>
  The sign of a value (\<open>0\<close> for zero), or \<open>None\<close> for NaN. A product with an infinite
  factor is the infinity of the product of the signs, or NaN when the other factor is
  zero.
\<close>

fun np_sign :: "npfloat \<Rightarrow> real option" where
  "np_sign (Fin x) = Some (sgn x)"
| "np_sign PInf = Some 1"
| "np_sign NInf = Some (- 1)"
| "np_sign NaN = None"

definition inf_of_sign :: "real \<Rightarrow> npfloat" where
  "inf_of_sign s = (if s = 0 then NaN else if 0 < s then PInf else NInf)"

definition np_mul :: "npfloat \<Rightarrow> npfloat \<Rightarrow> npfloat" where
  "np_mul a b =
     (case (a, b) of
        (Fin x, Fin y) \<Rightarrow> Fin (x * y)
      | _ \<Rightarrow>
          (case (np_sign a, np_sign b) of
             (Some s, Some t) \<Rightarrow> inf_of_sign (s * t)
           | _ \<Rightarrow> NaN))"

text \<open>
  Division. A finite non-zero value over zero is an infinity of the sign of the numerator
  (the zero divisors of the source are positive zeros), \<open>0 / 0\<close> and \<open>\<infinity> / \<infinity>\<close> are NaN.
\<close>

definition np_div :: "npfloat \<Rightarrow> npfloat \<Rightarrow> npfloat" where
  "np_div a b =
     (case (a, b) of
        (NaN, _) \<Rightarrow> NaN
      | (_, NaN) \<Rightarrow> NaN
      | (Fin x, Fin y) \<Rightarrow> if y = 0 then inf_of_sign (sgn x) else Fin (x / y)
      | (Fin x, _) \<Rightarrow> Fin 0
      | (PInf, Fin y) \<Rightarrow> if y < 0 then NInf else PInf
      | (NInf, Fin y) \<Rightarrow> if y < 0 then PInf else NInf
      | _ \<Rightarrow> NaN)"

fun np_sqrt :: "npfloat \<Rightarrow> npfloat" where
  "np_sqrt (Fin x) = (if x < 0 then NaN else Fin (sqrt x))"
| "np_sqrt PInf = PInf"
| "np_sqrt NInf = NaN"
| "np_sqrt NaN = NaN"

fun np_radians :: "npfloat \<Rightarrow> npfloat" where
  "np_radians (Fin x) = Fin (x * pi / 180)"
| "np_radians a = a"

fun np_sin :: "npfloat \<Rightarrow> npfloat" where
  "np_sin (Fin x) = Fin (sin x)"
| "np_sin a = NaN"

text \<open>
  \<open>a ** y\<close> for an \<open>np.float64\<close> base and a Python float exponent, as C's \<open>pow\<close>: a zero
  base with a negative exponent gives \<open>+\<infinity>\<close>, a negative base with a fractional exponent
  gives NaN, and nothing is raised.
\<close>

definition np_pow :: "npfloat \<Rightarrow> real \<Rightarrow> npfloat" where
  "np_pow a y =
     (if y = 0 then Fin 1
      else case a of
        NaN \<Rightarrow> NaN
      | Fin x \<Rightarrow>
          if 0 < x then Fin (x powr y)
          else if x = 0 then (if y < 0 then PInf else Fin 0)
          else if y \<in> \<int> then Fin ((if even \<lfloor>y\<rfloor> then 1 else - 1) * ((- x) powr y))
          else NaN
      | PInf \<Rightarrow> if y < 0 then Fin 0 else PInf
      | NInf \<Rightarrow> if y < 0 then Fin 0 else if y \<in> \<int> \<and> odd \<lfloor>y\<rfloor> then NInf else PInf)"

subsection \<open>Comparison, \<open>max\<close> and \<open>round\<close>\<close>

text \<open>IEEE comparisons: every comparison with NaN is false.\<close>

fun np_lt :: "npfloat \<Rightarrow> npfloat \<Rightarrow> bool" where
  "np_lt NaN b = False"
| "np_lt a NaN = False"
| "np_lt (Fin x) (Fin y) = (x < y)"
| "np_lt a NInf = False"
| "np_lt PInf b = False"
| "np_lt a b = True"

definition np_gt :: "npfloat \<Rightarrow> npfloat \<Rightarrow> bool" where
  "np_gt a b = np_lt b a"

definition np_le :: "npfloat \<Rightarrow> npfloat \<Rightarrow> bool" where
  "np_le a b = (a \<noteq> NaN \<and> b \<noteq> NaN \<and> (a = b \<or> np_lt a b))"

definition np_ge :: "npfloat \<Rightarrow> npfloat \<Rightarrow> bool" where
  "np_ge a b = np_le b a"

text \<open>
  Python's builtin \<open>max(a, b)\<close> keeps the first argument unless the second compares
  greater.
\<close>

definition py_max :: "npfloat \<Rightarrow> npfloat \<Rightarrow> npfloat" where
  "py_max a b = (if np_gt b a then b else a)"

text \<open>Rounding to the nearest integer, ties to even.\<close>

definition rint :: "real \<Rightarrow> real" where
  "rint x =
     (let f = \<lfloor>x\<rfloor>; r = x - of_int f
      in if r < 1 / 2 then of_int f
         else if 1 / 2 < r then of_int (f + 1)
         else if even f then of_int f else of_int (f + 1))"

text \<open>\<open>round(a, 2)\<close>: scale by 100, round to the nearest integer, scale back.\<close>

fun round2 :: "npfloat \<Rightarrow> npfloat" where
  "round2 (Fin x) = Fin (rint (x * 100) / 100)"
| "round2 a = a"

section \<open>The PAIR damage model: \<open>calculate_damage_from_pair_model\<close>\<close>

record results =
  energia_megatons :: npfloat
  altitude_explosao_km :: npfloat
  raio_dano_explosao_km :: npfloat
  raio_dano_termico_km :: npfloat
  raio_dano_final_km :: npfloat
  kinetic_energy_joules :: npfloat

text \<open>Step 1: the impact energy, in joules and in megatons of TNT.\<close>

definition energia_cinetica_j :: "real \<Rightarrow> real \<Rightarrow> real \<Rightarrow> real \<Rightarrow> exn + npfloat" where
  "energia_cinetica_j diameter_km velocity_km_s impact_angle densidade_rho =
     (let raio_m = (diameter_km * 1000) / 2;
          velocidade_m_s = velocity_km_s * 1000
      in case py_pow_int raio_m 3 of
           Inl e \<Rightarrow> Inl e
         | Inr raio_m_3 \<Rightarrow>
             (let volume_m3 = (4 / 3) * pi * raio_m_3;
                  massa_kg = densidade_rho * volume_m3
              in case py_pow_int velocidade_m_s 2 of
                   Inl e \<Rightarrow> Inl e
                 | Inr velocidade_m_s_2 \<Rightarrow>
                     Inr (np_mul (Fin (0.5 * massa_kg * velocidade_m_s_2))
                            (np_sin (np_radians (Fin impact_angle))))))"

definition energia_E_megatons :: "npfloat \<Rightarrow> npfloat" where
  "energia_E_megatons ke = np_div ke (Fin (4.184 * 10 ^ 15))"

text \<open>Step 2: the burst altitude.\<close>

definition altitude_h_km :: "real \<Rightarrow> real" where
  "altitude_h_km diameter_km = (if diameter_km < 0.05 then 5.0 else 0.0)"

text \<open>Step 3: the blast radius, by the airburst or the ground-impact formula.\<close>

definition airburst_blast :: "real \<Rightarrow> npfloat \<Rightarrow> exn + npfloat" where
  "airburst_blast h E =
     (case py_pow h (- 0.449) of
        Inl e \<Rightarrow> Inl e
      | Inr h_pow \<Rightarrow>
          (case py_pow_int h 2 of
             Inl e \<Rightarrow> Inl e
           | Inr h_2 \<Rightarrow>
               Inr (np_add (np_mul (Fin (2.09 * h_pow * h_2)) (np_pow E (- 1 / 3)))
                      (np_mul (Fin 5.08) (np_pow E (1 / 3))))))"

definition ground_blast :: "npfloat \<Rightarrow> npfloat" where
  "ground_blast E = np_mul (Fin 5.08) (np_pow E (1 / 3))"

definition raio_blast_km :: "real \<Rightarrow> npfloat \<Rightarrow> exn + npfloat" where
  "raio_blast_km h E = (if h > 0 then airburst_blast h E else Inr (ground_blast E))"

text \<open>Step 4: the thermal radius.\<close>

definition Zi :: "npfloat \<Rightarrow> npfloat" where
  "Zi E = np_mul (Fin 0.42) (np_pow E (1 / 6))"

definition r_sq :: "real \<Rightarrow> npfloat \<Rightarrow> npfloat" where
  "r_sq eta E = np_div (np_mul (Fin eta) E) (np_mul (Fin (2 * pi)) (Zi E))"

definition raio_thermal_km :: "real \<Rightarrow> real \<Rightarrow> npfloat \<Rightarrow> exn + npfloat" where
  "raio_thermal_km eta h E =
     (case py_pow_int h 2 of
        Inl e \<Rightarrow> Inl e
      | Inr h_sq \<Rightarrow>
          Inr (if np_gt (r_sq eta E) (Fin h_sq)
               then np_sqrt (np_sub (r_sq eta E) (Fin h_sq))
               else Fin 0.0))"

text \<open>
  Step 5 and the whole body of the \<open>try\<close> block: an exception raised by any step leaves
  the block at once.
\<close>

definition calculate_damage_try ::
  "real \<Rightarrow> real \<Rightarrow> real \<Rightarrow> real \<Rightarrow> real \<Rightarrow> exn + results" where
  "calculate_damage_try diameter_km velocity_km_s impact_angle densidade_rho eficiencia_eta =
     (case energia_cinetica_j diameter_km velocity_km_s impact_angle densidade_rho of
        Inl e \<Rightarrow> Inl e
      | Inr ke \<Rightarrow>
          (let E = energia_E_megatons ke;
               h = altitude_h_km diameter_km
           in case raio_blast_km h E of
                Inl e \<Rightarrow> Inl e
              | Inr blast \<Rightarrow>
                  (case raio_thermal_km eficiencia_eta h E of
                     Inl e \<Rightarrow> Inl e
                   | Inr thermal \<Rightarrow>
                       Inr \<lparr> energia_megatons = round2 E,
                             altitude_explosao_km = round2 (Fin h),
                             raio_dano_explosao_km = round2 blast,
                             raio_dano_termico_km = round2 thermal,
                             raio_dano_final_km = round2 (py_max blast thermal),
                             kinetic_energy_joules = ke \<rparr>)))"

text \<open>\<open>except Exception\<close>: every exception becomes the result \<open>None\<close>.\<close>

definition calculate_damage_from_pair_model ::
  "real \<Rightarrow> real \<Rightarrow> real \<Rightarrow> real \<Rightarrow> real \<Rightarrow> results option" where
  "calculate_damage_from_pair_model diameter_km velocity_km_s impact_angle densidade_rho
       eficiencia_eta =
     (case calculate_damage_try diameter_km velocity_km_s impact_angle densidade_rho
             eficiencia_eta of
        Inl e \<Rightarrow> None
      | Inr res \<Rightarrow> Some res)"

section \<open>The classifier adapter: \<open>predict_pha_risk\<close>\<close>

text \<open>
  The feature dictionary maps names to floats. A data frame built from a list of
  dictionaries with explicit \<open>columns\<close> has exactly those columns in that order; a
  column missing from a dictionary is NaN, a key that is no column is dropped. The
  loaded classifier is the module-level \<open>PHA_CLASSIFIER_MODEL\<close>, \<open>None\<close> when loading
  failed; its \<open>predict\<close> returns an array of class labels or raises.
\<close>

type_synonym features_dict = "string \<rightharpoonup> npfloat"

record dataframe =
  columns :: "string list"
  rows :: "npfloat list list"

type_synonym classifier = "dataframe \<Rightarrow> exn + int list"

definition features_order :: "string list" where
  "features_order =
     [''absolute_magnitude_h'', ''diameter_km_avg'', ''velocity_km_s'',
      ''miss_distance_km'', ''kinetic_energy_joules'']"

definition cell :: "features_dict \<Rightarrow> string \<Rightarrow> npfloat" where
  "cell d c = (case d c of Some v \<Rightarrow> v | None \<Rightarrow> NaN)"

definition pd_DataFrame :: "features_dict list \<Rightarrow> string list \<Rightarrow> dataframe" where
  "pd_DataFrame records cols =
     \<lparr> columns = cols, rows = map (\<lambda>d. map (cell d) cols) records \<rparr>"

definition input_df :: "features_dict \<Rightarrow> dataframe" where
  "input_df features = pd_DataFrame [features] features_order"

text \<open>\<open>bool(prediction[0])\<close>: indexing an empty array raises \<open>IndexError\<close>.\<close>

definition predict_try :: "classifier \<Rightarrow> features_dict \<Rightarrow> exn + bool" where
  "predict_try model features =
     (case model (input_df features) of
        Inl e \<Rightarrow> Inl e
      | Inr prediction \<Rightarrow>
          (case prediction of [] \<Rightarrow> Inl IndexError | p # _ \<Rightarrow> Inr (p \<noteq> 0)))"

definition predict_pha_risk :: "classifier option \<Rightarrow> features_dict \<Rightarrow> bool" where
  "predict_pha_risk PHA_CLASSIFIER_MODEL features =
     (case PHA_CLASSIFIER_MODEL of
        None \<Rightarrow> False
      | Some model \<Rightarrow>
          (case predict_try model features of Inl e \<Rightarrow> False | Inr b \<Rightarrow> b))"

section \<open>Auxiliary notions for the statements\<close>

text \<open>
  The kinetic energy as the specification writes it, over the reals:
  \<open>mass_kg = density_kg_m3 \<times> (4/3)\<pi>(diameter_km \<sqdot> 1000 / 2)\<^sup>3\<close>,
  \<open>velocity_m_s = velocity_km_s \<sqdot> 1000\<close> and
  \<open>kinetic_energy_joules = 0.5 \<times> mass_kg \<times> velocity_m_s\<^sup>2 \<times> sin(radians(impact_angle_degrees))\<close>.
\<close>

definition spec_mass_kg :: "real \<Rightarrow> real \<Rightarrow> real" where
  "spec_mass_kg density_kg_m3 diameter_km =
     density_kg_m3 * ((4 / 3) * pi * (diameter_km * 1000 / 2) ^ 3)"

definition spec_kinetic_energy_joules :: "real \<Rightarrow> real \<Rightarrow> real \<Rightarrow> real \<Rightarrow> real" where
  "spec_kinetic_energy_joules diameter_km velocity_km_s impact_angle_degrees density_kg_m3 =
     0.5 * spec_mass_kg density_kg_m3 diameter_km * (velocity_km_s * 1000) ^ 2
       * sin (impact_angle_degrees * pi / 180)"

text \<open>
  The two blast formulas as the specification writes them,
  \<open>2.09\<sqdot>h\<^sup>-\<^sup>0\<^sup>.\<^sup>4\<^sup>4\<^sup>9\<sqdot>h\<^sup>2\<sqdot>E\<^sup>-\<^sup>1\<^sup>/\<^sup>3 + 5.08\<sqdot>E\<^sup>1\<^sup>/\<^sup>3\<close> and \<open>5.08\<sqdot>E\<^sup>1\<^sup>/\<^sup>3\<close>, for a positive real altitude
  \<open>h\<close> and the energy \<open>E\<close> the code computes.
\<close>

definition spec_airburst_radius :: "real \<Rightarrow> npfloat \<Rightarrow> npfloat" where
  "spec_airburst_radius h E =
     np_add (np_mul (Fin (2.09 * h powr (- 0.449) * h ^ 2)) (np_pow E (- 1 / 3)))
       (np_mul (Fin 5.08) (np_pow E (1 / 3)))"

definition spec_ground_radius :: "npfloat \<Rightarrow> npfloat" where
  "spec_ground_radius E = np_mul (Fin 5.08) (np_pow E (1 / 3))"


text \<open>
  The two powers of step 1 that leave the double range, which is when Python raises
  \<open>OverflowError\<close>.
\<close>

definition power_overflows :: "real \<Rightarrow> real \<Rightarrow> bool" where
  "power_overflows diameter_km velocity_km_s =
     (dbl_max < \<bar>(diameter_km * 1000 / 2) ^ 3\<bar> \<or> dbl_max < \<bar>(velocity_km_s * 1000) ^ 2\<bar>)"

section \<open>Basic facts\<close>

lemma dbl_max_ge: "25 \<le> dbl_max"
  by (simp add: dbl_max_def)

lemma py_pow_int_h: "py_pow_int 5 2 = Inr 25" "py_pow_int 0 2 = Inr 0"
  using dbl_max_ge by (simp_all add: py_pow_int_def)

lemma py_pow_ge_one: 
  assumes "1 \<le> x" "y < 0" shows "py_pow x y = Inr (x powr y)"
proof -
  have "x powr y \<le> x powr 0" using assms by (intro powr_mono) simp_all
  hence "\<bar>x powr y\<bar> \<le> 1" using assms by simp
  moreover have "1 \<le> dbl_max" using dbl_max_ge by simp
  ultimately show ?thesis using assms by (simp add: py_pow_def)
qed

lemma np_mul_Fin: "np_mul (Fin x) (Fin y) = Fin (x * y)"
  by (simp add: np_mul_def)


lemma np_mul_NaN: "np_mul a NaN = NaN" "np_mul NaN a = NaN"
  by (cases a; simp add: np_mul_def)+

lemma np_div_Fin: "np_div (Fin x) (Fin y) = (if y = 0 then (if x = 0 then NaN else if 0 < x then PInf else NInf) else Fin (x / y))"
  by (simp add: np_div_def inf_of_sign_def sgn_if)

lemma energia_cinetica_j_eq:
  "energia_cinetica_j d v a rho =
     (if power_overflows d v then Inl OverflowError
      else Inr (Fin (spec_kinetic_energy_joules d v a rho)))"
  by (simp add: energia_cinetica_j_def py_pow_int_def np_mul_Fin Let_def power_overflows_def
        spec_kinetic_energy_joules_def spec_mass_kg_def)

lemma energia_E_megatons_Fin: "energia_E_megatons (Fin k) = Fin (k / (4.184 * 10 ^ 15))"
  by (simp add: energia_E_megatons_def np_div_Fin)

lemma altitude_h_km_cases: "altitude_h_km d = 5 \<or> altitude_h_km d = 0"
  by (simp add: altitude_h_km_def)

lemma third_not_int: "(1 / 3 :: real) \<notin> \<int>" "(- 1 / 3 :: real) \<notin> \<int>" "(1 / 6 :: real) \<notin> \<int>"
proof -
  have "frac (1 / 3 :: real) \<noteq> 0" by (simp add: frac_def)
  thus "(1 / 3 :: real) \<notin> \<int>" by (simp add: frac_eq_0_iff)
  have "frac (- 1 / 3 :: real) \<noteq> 0" by (simp add: frac_def)
  thus "(- 1 / 3 :: real) \<notin> \<int>" by (simp add: frac_eq_0_iff)
  have "frac (1 / 6 :: real) \<noteq> 0" by (simp add: frac_def)
  thus "(1 / 6 :: real) \<notin> \<int>" by (simp add: frac_eq_0_iff)
qed

lemma np_pow_Fin_third:
  "np_pow (Fin e) (1 / 3) = (if 0 \<le> e then Fin (e powr (1 / 3)) else NaN)"
  "np_pow (Fin e) (- 1 / 3) = (if 0 < e then Fin (e powr (- 1 / 3)) else if e = 0 then PInf else NaN)"
  "np_pow (Fin e) (- (1 / 3)) = (if 0 < e then Fin (e powr (- (1 / 3))) else if e = 0 then PInf else NaN)"
  "np_pow (Fin e) (1 / 6) = (if 0 \<le> e then Fin (e powr (1 / 6)) else NaN)"
  using third_not_int by (auto simp: np_pow_def)

lemma np_div_NaN: "np_div a NaN = NaN" "np_div NaN a = NaN"
  by (cases a; simp add: np_div_def)+

lemma airburst_blast_5:
  "airburst_blast 5 E =
     Inr (np_add (np_mul (Fin (2.09 * 5 powr (- 0.449) * 5 ^ 2)) (np_pow E (- 1 / 3)))
            (np_mul (Fin 5.08) (np_pow E (1 / 3))))"
  using py_pow_ge_one [of 5 "- 0.449"] by (simp add: airburst_blast_def py_pow_int_h)

lemma airburst_blast_0: "airburst_blast 0 E = Inl ZeroDivisionError"
  by (simp add: airburst_blast_def py_pow_def)

lemma raio_blast_km_altitude:
  "raio_blast_km (altitude_h_km d) E =
     Inr (if d < 0.05
          then np_add (np_mul (Fin (2.09 * 5 powr (- 0.449) * 5 ^ 2)) (np_pow E (- 1 / 3)))
                 (np_mul (Fin 5.08) (np_pow E (1 / 3)))
          else np_mul (Fin 5.08) (np_pow E (1 / 3)))"
  using airburst_blast_5 [of E] by (simp add: raio_blast_km_def altitude_h_km_def ground_blast_def)

lemma raio_thermal_km_altitude:
  "raio_thermal_km eta (altitude_h_km d) E =
     Inr (if np_gt (r_sq eta E) (Fin ((altitude_h_km d) ^ 2))
          then np_sqrt (np_sub (r_sq eta E) (Fin ((altitude_h_km d) ^ 2)))
          else Fin 0)"
  using py_pow_int_h by (simp add: raio_thermal_km_def altitude_h_km_def)

lemma calculate_damage_try_Inr:
  assumes "energia_cinetica_j d v a rho = Inr ke"
    and "raio_blast_km (altitude_h_km d) (energia_E_megatons ke) = Inr b"
    and "raio_thermal_km eta (altitude_h_km d) (energia_E_megatons ke) = Inr t"
  shows "calculate_damage_try d v a rho eta =
           Inr \<lparr> energia_megatons = round2 (energia_E_megatons ke),
                 altitude_explosao_km = round2 (Fin (altitude_h_km d)),
                 raio_dano_explosao_km = round2 b,
                 raio_dano_termico_km = round2 t,
                 raio_dano_final_km = round2 (py_max b t),
                 kinetic_energy_joules = ke \<rparr>"
  by (simp add: calculate_damage_try_def Let_def assms)

lemma calculate_damage_try_Inl:
  "(calculate_damage_try d v a rho eta = Inl e) = (e = OverflowError \<and> power_overflows d v)"
proof (cases "power_overflows d v")
  case True
  thus ?thesis by (auto simp: calculate_damage_try_def energia_cinetica_j_eq)
next
  case False
  hence "energia_cinetica_j d v a rho = Inr (Fin (spec_kinetic_energy_joules d v a rho))"
    by (simp add: energia_cinetica_j_eq)
  from calculate_damage_try_Inr [OF this raio_blast_km_altitude raio_thermal_km_altitude] False
  show ?thesis by simp
qed

lemma calculate_damage_None:
  "(calculate_damage_from_pair_model d v a rho eta = None) = power_overflows d v"
proof -
  have "(calculate_damage_from_pair_model d v a rho eta = None) =
          (\<exists>e. calculate_damage_try d v a rho eta = Inl e)"
    by (auto simp: calculate_damage_from_pair_model_def split: sum.splits)
  thus ?thesis by (simp add: calculate_damage_try_Inl)
qed

lemma calculate_damage_Some:
  assumes "calculate_damage_from_pair_model d v a rho eta = Some r"
  obtains ke b t where
    "energia_cinetica_j d v a rho = Inr ke"
    "raio_blast_km (altitude_h_km d) (energia_E_megatons ke) = Inr b"
    "raio_thermal_km eta (altitude_h_km d) (energia_E_megatons ke) = Inr t"
    "r = \<lparr> energia_megatons = round2 (energia_E_megatons ke),
           altitude_explosao_km = round2 (Fin (altitude_h_km d)),
           raio_dano_explosao_km = round2 b,
           raio_dano_termico_km = round2 t,
           raio_dano_final_km = round2 (py_max b t),
           kinetic_energy_joules = ke \<rparr>"
proof -
  from assms have "\<not> power_overflows d v"
    using calculate_damage_None [of d v a rho eta] by simp
  then obtain ke where ke: "energia_cinetica_j d v a rho = Inr ke"
    by (simp add: energia_cinetica_j_eq)
  obtain b where b: "raio_blast_km (altitude_h_km d) (energia_E_megatons ke) = Inr b"
    by (simp add: raio_blast_km_altitude)
  obtain t where t: "raio_thermal_km eta (altitude_h_km d) (energia_E_megatons ke) = Inr t"
    by (simp add: raio_thermal_km_altitude)
  from calculate_damage_try_Inr [OF ke b t] assms
  have "r = \<lparr> energia_megatons = round2 (energia_E_megatons ke),
           altitude_explosao_km = round2 (Fin (altitude_h_km d)),
           raio_dano_explosao_km = round2 b,
           raio_dano_termico_km = round2 t,
           raio_dano_final_km = round2 (py_max b t),
           kinetic_energy_joules = ke \<rparr>"
    by (simp add: calculate_damage_from_pair_model_def)
  with ke b t show ?thesis by (rule that)
qed

lemma rint_cases: "rint x = of_int \<lfloor>x\<rfloor> \<or> rint x = of_int \<lfloor>x\<rfloor> + 1"
  by (simp add: rint_def Let_def)

lemma rint_mono: assumes "x \<le> y" shows "rint x \<le> rint y"
proof (cases "\<lfloor>x\<rfloor> = \<lfloor>y\<rfloor>")
  case True
  with assms show ?thesis by (auto simp: rint_def Let_def)
next
  case False
  with assms have "\<lfloor>x\<rfloor> < \<lfloor>y\<rfloor>" using floor_mono [of x y] by linarith
  hence "of_int \<lfloor>x\<rfloor> + 1 \<le> (of_int \<lfloor>y\<rfloor> :: real)"
    by (metis of_int_1 of_int_add of_int_le_iff zless_imp_add1_zle)
  moreover have "rint x \<le> of_int \<lfloor>x\<rfloor> + 1" using rint_cases [of x] by auto
  moreover have "of_int \<lfloor>y\<rfloor> \<le> rint y" using rint_cases [of y] by auto
  ultimately show ?thesis by linarith
qed

lemma rint_0: "rint 0 = 0"
  by (simp add: rint_def)



lemma round2_mono: assumes "np_le a b" shows "np_le (round2 a) (round2 b)"
proof (cases a; cases b)
  fix x y assume *: "a = Fin x" "b = Fin y"
  with assms have "x \<le> y" by (auto simp: np_le_def)
  hence "rint (x * 100) \<le> rint (y * 100)" by (intro rint_mono) simp
  with * show ?thesis by (auto simp: np_le_def)
qed (use assms in \<open>auto simp: np_le_def\<close>)




lemma Zi_Fin: "Zi (Fin e) = (if 0 \<le> e then Fin (0.42 * e powr (1 / 6)) else NaN)"
  by (simp add: Zi_def np_pow_Fin_third np_mul_Fin np_mul_NaN)

lemma r_sq_Fin:
  "r_sq eta (Fin e) =
     (if 0 < e then Fin (eta * e / (2 * pi * (0.42 * e powr (1 / 6)))) else NaN)"
  by (simp add: r_sq_def Zi_Fin np_mul_Fin np_mul_NaN np_div_Fin np_div_NaN)

lemma thermal_ge_0:
  assumes "raio_thermal_km eta (altitude_h_km d) E = Inr t"
  shows "np_ge t (Fin 0)"
proof (cases "np_gt (r_sq eta E) (Fin ((altitude_h_km d) ^ 2))")
  case True
  with assms have t: "t = np_sqrt (np_sub (r_sq eta E) (Fin ((altitude_h_km d) ^ 2)))"
    by (simp add: raio_thermal_km_altitude)
  from True show ?thesis unfolding t
    by (cases "r_sq eta E") (auto simp: np_gt_def np_sub_def np_ge_def np_le_def)
next
  case False
  with assms show ?thesis by (auto simp: raio_thermal_km_altitude np_ge_def np_le_def)
qed



lemma rint_numeral: "rint (numeral n) = numeral n"
  by (simp add: rint_def)




lemma power_in_range:
  assumes d: "\<bar>d\<bar> \<le> 1000" and v: "\<bar>v\<bar> \<le> 1000"
  shows "\<not> power_overflows d v"
proof -
  have "\<bar>d * 1000 / 2\<bar> \<le> 10 ^ 6" using d by (simp add: abs_mult)
  hence "\<bar>d * 1000 / 2\<bar> ^ 3 \<le> (10 ^ 6) ^ 3" by (intro power_mono) simp_all
  moreover have "\<bar>(d * 1000 / 2) ^ 3\<bar> = \<bar>d * 1000 / 2\<bar> ^ 3" by (rule power_abs)
  moreover have "((10::real) ^ 6) ^ 3 \<le> dbl_max" by (simp add: dbl_max_def)
  ultimately have 1: "\<bar>(d * 1000 / 2) ^ 3\<bar> \<le> dbl_max" by linarith
  have "\<bar>v * 1000\<bar> \<le> 10 ^ 6" using v by (simp add: abs_mult)
  hence "\<bar>v * 1000\<bar> ^ 2 \<le> (10 ^ 6) ^ 2" by (intro power_mono) simp_all
  moreover have "\<bar>(v * 1000) ^ 2\<bar> = \<bar>v * 1000\<bar> ^ 2" by (rule power_abs)
  moreover have "((10::real) ^ 6) ^ 2 \<le> dbl_max" by (simp add: dbl_max_def)
  ultimately have 2: "\<bar>(v * 1000) ^ 2\<bar> \<le> dbl_max" by linarith
  from 1 2 show ?thesis unfolding power_overflows_def by linarith
qed


lemma calculate_damage_the:
  "\<not> power_overflows d v \<Longrightarrow>
     calculate_damage_from_pair_model d v a rho eta =
       Some (the (calculate_damage_from_pair_model d v a rho eta))"
  using calculate_damage_None [of d v a rho eta] by auto

lemma spec_ke_pos_example: "0 < spec_kinetic_energy_joules 0.14 19 90 3000"
  by (simp add: spec_kinetic_energy_joules_def spec_mass_kg_def)

lemma kinetic_energy_joules_Some:
  assumes "calculate_damage_from_pair_model d v a rho eta = Some r"
  shows "kinetic_energy_joules r = Fin (spec_kinetic_energy_joules d v a rho)"
    and "energia_cinetica_j d v a rho = Inr (kinetic_energy_joules r)"
proof -
  from assms obtain ke b t where
    ke: "energia_cinetica_j d v a rho = Inr ke" and
    r: "r = \<lparr> energia_megatons = round2 (energia_E_megatons ke),
           altitude_explosao_km = round2 (Fin (altitude_h_km d)),
           raio_dano_explosao_km = round2 b,
           raio_dano_termico_km = round2 t,
           raio_dano_final_km = round2 (py_max b t),
           kinetic_energy_joules = ke \<rparr>"
    by (rule calculate_damage_Some)
  from ke show "energia_cinetica_j d v a rho = Inr (kinetic_energy_joules r)" by (simp add: r)
  from ke show "kinetic_energy_joules r = Fin (spec_kinetic_energy_joules d v a rho)"
    by (simp add: r energia_cinetica_j_eq split: if_splits)
qed


lemma raio_blast_km_spec:
  "raio_blast_km (altitude_h_km d) E =
     Inr (if d < 0.05 then spec_airburst_radius 5 E else spec_ground_radius E)"
  by (simp add: raio_blast_km_altitude spec_airburst_radius_def spec_ground_radius_def)

lemma spec_radius_Fin:
  assumes "0 < e"
  shows "spec_airburst_radius h (Fin e) =
           Fin (2.09 * h powr (- 0.449) * h ^ 2 * e powr (- 1 / 3) + 5.08 * e powr (1 / 3))"
    and "spec_ground_radius (Fin e) = Fin (5.08 * e powr (1 / 3))"
  using assms
  by (simp_all only: spec_airburst_radius_def spec_ground_radius_def np_pow_Fin_third
        np_mul_Fin np_add.simps if_True less_imp_le)














section \<open>The final radius\<close>




section \<open>The thermal radius\<close>

text \<open>
  Claim C2. For every input on which \<open>calculate_damage_from_pair_model\<close> returns a
  result, the thermal radius is never negative, before and after rounding: with
  \<open>Zi = 0.42\<sqdot>E\<^sup>1\<^sup>/\<^sup>6\<close>, \<open>r_sq = (eta \<times> E) / (2\<pi>\<sqdot>Zi)\<close> and \<open>h_sq = h\<^sup>2\<close> it is
  \<open>sqrt(r_sq - h_sq)\<close> when \<open>r_sq > h_sq\<close> and exactly \<open>0.0\<close> when \<open>r_sq \<le> h_sq\<close>.
\<close>

theorem thermal_radius_clamped:
  assumes "calculate_damage_from_pair_model d v a rho eta = Some r"
  shows "\<exists>t. raio_thermal_km eta (altitude_h_km d)
               (energia_E_megatons (kinetic_energy_joules r)) = Inr t
       \<and> raio_dano_termico_km r = round2 t
       \<and> np_ge t (Fin 0) \<and> np_ge (raio_dano_termico_km r) (Fin 0)
       \<and> (np_gt (r_sq eta (energia_E_megatons (kinetic_energy_joules r)))
                 (Fin ((altitude_h_km d) ^ 2)) \<longrightarrow>
            t = np_sqrt (np_sub (r_sq eta (energia_E_megatons (kinetic_energy_joules r)))
                           (Fin ((altitude_h_km d) ^ 2))))
       \<and> (np_le (r_sq eta (energia_E_megatons (kinetic_energy_joules r)))
                 (Fin ((altitude_h_km d) ^ 2)) \<longrightarrow>
            t = Fin 0 \<and> raio_dano_termico_km r = Fin 0)
       \<and> r_sq eta (energia_E_megatons (kinetic_energy_joules r)) =
            np_div (np_mul (Fin eta) (energia_E_megatons (kinetic_energy_joules r)))
              (np_mul (Fin (2 * pi)) (Zi (energia_E_megatons (kinetic_energy_joules r))))
       \<and> Zi (energia_E_megatons (kinetic_energy_joules r)) =
            np_mul (Fin 0.42) (np_pow (energia_E_megatons (kinetic_energy_joules r)) (1 / 6))"
proof -
  from assms obtain ke b t where
    t: "raio_thermal_km eta (altitude_h_km d) (energia_E_megatons ke) = Inr t" and
    r: "r = \<lparr> energia_megatons = round2 (energia_E_megatons ke),
           altitude_explosao_km = round2 (Fin (altitude_h_km d)),
           raio_dano_explosao_km = round2 b,
           raio_dano_termico_km = round2 t,
           raio_dano_final_km = round2 (py_max b t),
           kinetic_energy_joules = ke \<rparr>"
    by (rule calculate_damage_Some)
  let ?E = "energia_E_megatons (kinetic_energy_joules r)"
  have E: "?E = energia_E_megatons ke" by (simp add: r)
  have t': "raio_thermal_km eta (altitude_h_km d) ?E = Inr t" using t E by simp
  have f: "raio_dano_termico_km r = round2 t" by (simp add: r)
  have ge: "np_ge t (Fin 0)" using t' by (rule thermal_ge_0)
  hence "np_le (round2 (Fin 0)) (round2 t)" unfolding np_ge_def by (rule round2_mono)
  hence ge': "np_ge (raio_dano_termico_km r) (Fin 0)"
    by (simp add: f np_ge_def rint_0)
  have gt: "np_gt (r_sq eta ?E) (Fin ((altitude_h_km d) ^ 2)) \<longrightarrow>
            t = np_sqrt (np_sub (r_sq eta ?E) (Fin ((altitude_h_km d) ^ 2)))"
    using t' by (auto simp: raio_thermal_km_altitude)
  have "np_le (r_sq eta ?E) (Fin ((altitude_h_km d) ^ 2)) \<longrightarrow> t = Fin 0"
    using t' by (cases "r_sq eta ?E") (auto simp: raio_thermal_km_altitude np_le_def np_gt_def)
  hence le: "np_le (r_sq eta ?E) (Fin ((altitude_h_km d) ^ 2)) \<longrightarrow>
            t = Fin 0 \<and> raio_dano_termico_km r = Fin 0"
    by (auto simp: f rint_0)
  have d1: "r_sq eta ?E = np_div (np_mul (Fin eta) ?E) (np_mul (Fin (2 * pi)) (Zi ?E))"
    by (simp only: r_sq_def)
  have d2: "Zi ?E = np_mul (Fin 0.42) (np_pow ?E (1 / 6))"
    by (simp only: Zi_def)
  from t' f ge ge' gt le d1 d2 show ?thesis by blast
qed

theorem thermal_radius_clamped_witness:
  "np_ge (raio_dano_termico_km (the (calculate_damage_from_pair_model 0.14 19 90 3000 0.3))) (Fin 0)
   \<and> raio_dano_termico_km (the (calculate_damage_from_pair_model 0.14 19 90 3000 0.3)) =
       round2 (np_sqrt (np_sub
         (r_sq 0.3 (Fin (spec_kinetic_energy_joules 0.14 19 90 3000 / (4.184 * 10 ^ 15))))
         (Fin 0)))"
proof -
  let ?r = "the (calculate_damage_from_pair_model 0.14 19 90 3000 0.3)"
  let ?e = "spec_kinetic_energy_joules 0.14 19 90 3000 / (4.184 * 10 ^ 15)"
  have "\<not> power_overflows 0.14 19" by (rule power_in_range) simp_all
  hence r: "calculate_damage_from_pair_model 0.14 19 90 3000 0.3 = Some ?r"
    by (rule calculate_damage_the)
  have E: "energia_E_megatons (kinetic_energy_joules ?r) = Fin ?e"
    by (simp only: kinetic_energy_joules_Some(1) [OF r] energia_E_megatons_Fin)
  have h: "(altitude_h_km 0.14) ^ 2 = 0" by (simp add: altitude_h_km_def)
  have "0 < ?e" using spec_ke_pos_example by simp
  hence gt: "np_gt (r_sq 0.3 (Fin ?e)) (Fin 0)" by (simp add: r_sq_Fin np_gt_def)
  from thermal_radius_clamped [OF r] gt show ?thesis unfolding E h by auto
qed

section \<open>Failures\<close>




section \<open>Zero energy in the airburst branch\<close>




section \<open>Regime selection\<close>

text \<open>
  Claim C6. The regime and the blast radius are selected by the diameter threshold: for a
  diameter below \<open>0.05\<close> the burst altitude is exactly \<open>5.0\<close> and the blast radius is the
  airburst formula at \<open>h = 5\<close>, otherwise the altitude is \<open>0.0\<close> and the blast radius is
  the ground-impact formula; the result holds the altitude and the blast radius rounded
  to two decimals. For a positive energy the two formulas are the real-valued expressions
  of the specification.
\<close>

theorem regime_selected_by_diameter:
  "altitude_h_km d = (if d < 0.05 then 5 else 0)
   \<and> raio_blast_km (altitude_h_km d) E =
       Inr (if d < 0.05 then spec_airburst_radius 5 E else spec_ground_radius E)
   \<and> (0 < e \<longrightarrow>
        spec_airburst_radius 5 (Fin e) =
          Fin (2.09 * 5 powr (- 0.449) * 5 ^ 2 * e powr (- 1 / 3) + 5.08 * e powr (1 / 3))
      \<and> spec_ground_radius (Fin e) = Fin (5.08 * e powr (1 / 3)))
   \<and> (calculate_damage_from_pair_model d v a rho eta = Some r \<longrightarrow>
        altitude_explosao_km r = (if d < 0.05 then Fin 5 else Fin 0)
      \<and> raio_dano_explosao_km r =
          round2 (if d < 0.05
                  then spec_airburst_radius 5 (energia_E_megatons (kinetic_energy_joules r))
                  else spec_ground_radius (energia_E_megatons (kinetic_energy_joules r))))"
proof -
  have 1: "altitude_h_km d = (if d < 0.05 then 5 else 0)" by (simp add: altitude_h_km_def)
  have 2: "raio_blast_km (altitude_h_km d) E =
       Inr (if d < 0.05 then spec_airburst_radius 5 E else spec_ground_radius E)" for E
    by (rule raio_blast_km_spec)
  have 3: "0 < e \<longrightarrow>
        spec_airburst_radius 5 (Fin e) =
          Fin (2.09 * 5 powr (- 0.449) * 5 ^ 2 * e powr (- 1 / 3) + 5.08 * e powr (1 / 3))
      \<and> spec_ground_radius (Fin e) = Fin (5.08 * e powr (1 / 3))"
    using spec_radius_Fin(1) [of e 5] spec_radius_Fin(2) [of e] by blast
  have 4: "calculate_damage_from_pair_model d v a rho eta = Some r \<longrightarrow>
        altitude_explosao_km r = (if d < 0.05 then Fin 5 else Fin 0)
      \<and> raio_dano_explosao_km r =
          round2 (if d < 0.05
                  then spec_airburst_radius 5 (energia_E_megatons (kinetic_energy_joules r))
                  else spec_ground_radius (energia_E_megatons (kinetic_energy_joules r)))"
  proof
    assume "calculate_damage_from_pair_model d v a rho eta = Some r"
    then obtain ke b t where
      b: "raio_blast_km (altitude_h_km d) (energia_E_megatons ke) = Inr b" and
      r: "r = \<lparr> energia_megatons = round2 (energia_E_megatons ke),
           altitude_explosao_km = round2 (Fin (altitude_h_km d)),
           raio_dano_explosao_km = round2 b,
           raio_dano_termico_km = round2 t,
           raio_dano_final_km = round2 (py_max b t),
           kinetic_energy_joules = ke \<rparr>"
      by (rule calculate_damage_Some)
    have a: "altitude_explosao_km r = (if d < 0.05 then Fin 5 else Fin 0)"
      by (simp add: r altitude_h_km_def rint_0 rint_numeral)
    from b have "b = (if d < 0.05 then spec_airburst_radius 5 (energia_E_megatons ke)
                      else spec_ground_radius (energia_E_megatons ke))"
      unfolding 2 by simp
    hence "raio_dano_explosao_km r =
          round2 (if d < 0.05
                  then spec_airburst_radius 5 (energia_E_megatons (kinetic_energy_joules r))
                  else spec_ground_radius (energia_E_megatons (kinetic_energy_joules r)))"
      by (simp add: r)
    with a show "altitude_explosao_km r = (if d < 0.05 then Fin 5 else Fin 0)
      \<and> raio_dano_explosao_km r =
          round2 (if d < 0.05
                  then spec_airburst_radius 5 (energia_E_megatons (kinetic_energy_joules r))
                  else spec_ground_radius (energia_E_megatons (kinetic_energy_joules r)))"
      by blast
  qed
  from 1 2 3 4 show ?thesis by blast
qed

theorem regime_selected_by_diameter_witness:
  "altitude_explosao_km (the (calculate_damage_from_pair_model 0.03 19 90 3000 0.3)) = Fin 5
   \<and> raio_dano_explosao_km (the (calculate_damage_from_pair_model 0.03 19 90 3000 0.3)) =
       round2 (spec_airburst_radius 5
         (energia_E_megatons
            (kinetic_energy_joules (the (calculate_damage_from_pair_model 0.03 19 90 3000 0.3)))))
   \<and> altitude_explosao_km (the (calculate_damage_from_pair_model 0.14 19 90 3000 0.3)) = Fin 0
   \<and> raio_dano_explosao_km (the (calculate_damage_from_pair_model 0.14 19 90 3000 0.3)) =
       round2 (spec_ground_radius
         (energia_E_megatons
            (kinetic_energy_joules (the (calculate_damage_from_pair_model 0.14 19 90 3000 0.3)))))
   \<and> spec_ground_radius (Fin 8) = Fin (5.08 * 8 powr (1 / 3))"
proof -
  have "\<not> power_overflows 0.03 19" by (rule power_in_range) simp_all
  hence r1: "calculate_damage_from_pair_model 0.03 19 90 3000 0.3 =
              Some (the (calculate_damage_from_pair_model 0.03 19 90 3000 0.3))"
    by (rule calculate_damage_the)
  have "\<not> power_overflows 0.14 19" by (rule power_in_range) simp_all
  hence r2: "calculate_damage_from_pair_model 0.14 19 90 3000 0.3 =
              Some (the (calculate_damage_from_pair_model 0.14 19 90 3000 0.3))"
    by (rule calculate_damage_the)
  have p: "(0::real) < 8" by simp
  from regime_selected_by_diameter [of "0.03" _ 8 19 90 3000 "0.3", THEN conjunct2, THEN conjunct2]
       regime_selected_by_diameter [of "0.14" _ 8 19 90 3000 "0.3", THEN conjunct2, THEN conjunct2]
       r1 r2 p
  show ?thesis by simp
qed

text \<open>
  Claim C9. The burst altitude is \<open>5.0\<close> or \<open>0.0\<close>, and positive exactly for a diameter
  below \<open>0.05\<close>; the airburst formula is evaluated only for a positive altitude, hence
  only at \<open>5.0\<close>, and an altitude of \<open>0\<close> takes the ground-impact formula. Were the
  airburst formula evaluated at \<open>h = 0\<close>, \<open>h ** -0.449\<close> would raise
  \<open>ZeroDivisionError\<close>; no input makes the function raise it.
\<close>

theorem airburst_formula_only_at_5:
  "(altitude_h_km d = 5 \<or> altitude_h_km d = 0)
   \<and> (0 < altitude_h_km d) = (d < 0.05)
   \<and> (0 < altitude_h_km d \<longrightarrow> altitude_h_km d = 5)
   \<and> (0 < h \<longrightarrow> raio_blast_km h E = airburst_blast h E)
   \<and> (\<not> 0 < h \<longrightarrow> raio_blast_km h E = Inr (np_mul (Fin 5.08) (np_pow E (1 / 3))))
   \<and> (altitude_h_km d = 0 \<longrightarrow>
        raio_blast_km (altitude_h_km d) E = Inr (np_mul (Fin 5.08) (np_pow E (1 / 3))))
   \<and> airburst_blast 0 E = Inl ZeroDivisionError
   \<and> raio_blast_km (altitude_h_km d) E \<noteq> Inl ZeroDivisionError
   \<and> calculate_damage_try d v a rho eta \<noteq> Inl ZeroDivisionError"
proof -
  have 1: "altitude_h_km d = 5 \<or> altitude_h_km d = 0" by (rule altitude_h_km_cases)
  have 2: "(0 < altitude_h_km d) = (d < 0.05)" by (simp add: altitude_h_km_def)
  have 3: "0 < altitude_h_km d \<longrightarrow> altitude_h_km d = 5" by (simp add: altitude_h_km_def)
  have 4: "0 < h \<longrightarrow> raio_blast_km h E = airburst_blast h E" by (simp add: raio_blast_km_def)
  have 5: "\<not> 0 < h \<longrightarrow> raio_blast_km h E = Inr (np_mul (Fin 5.08) (np_pow E (1 / 3)))" for h
    by (simp add: raio_blast_km_def ground_blast_def)
  have 6: "altitude_h_km d = 0 \<longrightarrow>
        raio_blast_km (altitude_h_km d) E = Inr (np_mul (Fin 5.08) (np_pow E (1 / 3)))"
    by (auto simp: raio_blast_km_def ground_blast_def)
  have 7: "airburst_blast 0 E = Inl ZeroDivisionError" by (rule airburst_blast_0)
  have 8: "raio_blast_km (altitude_h_km d) E \<noteq> Inl ZeroDivisionError"
    by (simp add: raio_blast_km_altitude)
  have 9: "calculate_damage_try d v a rho eta \<noteq> Inl ZeroDivisionError"
    by (simp add: calculate_damage_try_Inl)
  from 1 2 3 4 5 6 7 8 9 show ?thesis by blast
qed

theorem airburst_formula_only_at_5_witness:
  "altitude_h_km 0.03 = 5 \<and> altitude_h_km 0.14 = 0
   \<and> raio_blast_km (altitude_h_km 0.03) (Fin 1) = airburst_blast 5 (Fin 1)
   \<and> raio_blast_km (altitude_h_km 0.14) (Fin 1) = Inr (np_mul (Fin 5.08) (np_pow (Fin 1) (1 / 3)))"
proof -
  have p: "(0::real) < 5" "\<not> (0::real) < 0" by simp_all
  from airburst_formula_only_at_5 [of "0.03" 5 "Fin 1" 19 90 3000 "0.3"] p(1)
  have 1: "raio_blast_km 5 (Fin 1) = airburst_blast 5 (Fin 1)" by blast
  from airburst_formula_only_at_5 [of "0.14" 0 "Fin 1" 19 90 3000 "0.3"] p(2)
  have 2: "raio_blast_km 0 (Fin 1) = Inr (np_mul (Fin 5.08) (np_pow (Fin 1) (1 / 3)))" by blast
  from 1 2 show ?thesis by (simp add: altitude_h_km_def)
qed

section \<open>The kinetic energy\<close>



section \<open>Monotonicity on the ground\<close>



section \<open>The classifier adapter\<close>



text \<open>
  Claim C8. The data frame passed to the classifier has exactly the five columns
  \<open>absolute_magnitude_h\<close>, \<open>diameter_km_avg\<close>, \<open>velocity_km_s\<close>, \<open>miss_distance_km\<close>,
  \<open>kinetic_energy_joules\<close>, in this order, and one row holding the dictionary's values of
  these keys in the same order, for every input dictionary; the answer depends on the
  classifier only through its prediction on this data frame.
\<close>

theorem feature_vector_order:
  "columns (input_df features) =
     [''absolute_magnitude_h'', ''diameter_km_avg'', ''velocity_km_s'',
      ''miss_distance_km'', ''kinetic_energy_joules'']
   \<and> rows (input_df features) =
       [[cell features ''absolute_magnitude_h'', cell features ''diameter_km_avg'',
         cell features ''velocity_km_s'', cell features ''miss_distance_km'',
         cell features ''kinetic_energy_joules'']]
   \<and> length (columns (input_df features)) = 5
   \<and> map length (rows (input_df features)) = [5]
   \<and> predict_pha_risk (Some model) features =
       (case model (input_df features) of
          Inl e \<Rightarrow> False
        | Inr prediction \<Rightarrow> (case prediction of [] \<Rightarrow> False | p # _ \<Rightarrow> p \<noteq> 0))"
  by (simp add: input_df_def pd_DataFrame_def features_order_def predict_pha_risk_def
        predict_try_def split: sum.splits list.splits)

theorem feature_vector_order_witness:
  "rows (input_df [''kinetic_energy_joules'' \<mapsto> Fin 5, ''name'' \<mapsto> Fin 9,
                   ''miss_distance_km'' \<mapsto> Fin 4, ''velocity_km_s'' \<mapsto> Fin 3,
                   ''absolute_magnitude_h'' \<mapsto> Fin 1]) =
     [[Fin 1, NaN, Fin 3, Fin 4, Fin 5]]"
  using feature_vector_order
          [of "[''kinetic_energy_joules'' \<mapsto> Fin 5, ''name'' \<mapsto> Fin 9,
                ''miss_distance_km'' \<mapsto> Fin 4, ''velocity_km_s'' \<mapsto> Fin 3,
                ''absolute_magnitude_h'' \<mapsto> Fin 1]"]
  by (simp add: cell_def)

end
